theory Spec2Isabelle
  imports Complex_Main
begin

section \<open>Lazy filtering of recordings: the data model\<close>

text \<open>
  The development follows \<^verbatim>\<open>spikeinterface/toolkit/preprocessing/filter.py\<close>.
  A finite Python float is the real number it stands for, Python exceptions are the
  values of \<open>error\<close>, and an object with methods is a record whose fields are the
  methods.
\<close>

datatype error =
  AssertionError | TypeError | ValueError | ZeroDivisionError | UnboundLocalError | ImportError
  | OverflowError

datatype np_dtype = Int16 | Int32 | Float32 | Float64

text \<open>
  A two-dimensional buffer, samples-major: \<open>samples\<close> holds one row per frame and
  \<open>n_channels\<close> is the length of the second axis (kept apart from the rows, as a numpy
  array with no row still has its number of columns).
\<close>

record traces =
  elem_dtype :: np_dtype
  n_channels :: nat
  samples :: "real list list"

text \<open>The raw data source: a segment of the parent recording, with its two methods.\<close>

record segment =
  get_num_frames :: int
  get_traces :: "int \<Rightarrow> int \<Rightarrow> nat list \<Rightarrow> error + traces"

text \<open>
  The parent recording: \<open>get_sampling_frequency()\<close>, \<open>get_dtype()\<close>, the attribute
  \<open>_recording_segments\<close> and \<open>to_dict()\<close>, whose result is of an arbitrary type \<open>'d\<close>.
\<close>

record 'd recording =
  get_sampling_frequency :: real
  get_dtype :: np_dtype
  recording_segments :: "segment list"
  to_dict :: 'd

text \<open>The argument \<open>band\<close> of the generic filter: a float, or a list of floats.\<close>

datatype band = Cutoff real | Edges "real list"

text \<open>
  The result of an operation on floats: a finite binary64 value, an infinity, or not a
  number.
\<close>

datatype pyfloat = Finite real | PosInf | NegInf | NaN

text \<open>
  The functions of \<^verbatim>\<open>scipy.signal\<close>, numpy's element cast and the binary64
  multiplication and division of the machine are not part of the program; they are
  parameters of the model. A tuple \<open>(b, a)\<close> of coefficient arrays and an array of
  second-order sections are both lists of rows. \<open>float_mul\<close> and \<open>float_div\<close> are
  the operations \<open>*\<close> and \<open>/\<close> on floats, each rounding its result to binary64;
  they decide the margin in samples. The frequencies handed to the design functions are
  written as exact quotients.
\<close>

record lib =
  iirfilter :: "int \<Rightarrow> band \<Rightarrow> string \<Rightarrow> string \<Rightarrow> string \<Rightarrow> error + real list list"
  iirnotch :: "real \<Rightarrow> real \<Rightarrow> error + (real list \<times> real list)"
  sosfiltfilt :: "real list list \<Rightarrow> traces \<Rightarrow> error + traces"
  filtfilt :: "real list \<Rightarrow> real list \<Rightarrow> traces \<Rightarrow> error + traces"
  astype_elem :: "np_dtype \<Rightarrow> real \<Rightarrow> real"
  float_mul :: "pyfloat \<Rightarrow> pyfloat \<Rightarrow> pyfloat"
  float_div :: "pyfloat \<Rightarrow> pyfloat \<Rightarrow> pyfloat"

text \<open>\<^verbatim>\<open>class FilterRecordingSegment\<close>: the attributes set by \<open>__init__\<close>.\<close>

record filter_segment =
  parent_recording_segment :: segment
  coeff :: "real list list"
  filter_mode :: string
  margin :: int
  dtype :: np_dtype

text \<open>
  A dictionary of keyword arguments, as a record with one optional field for each key
  that occurs in the program: \<open>None\<close> is an absent key. The key \<open>dtype\<close> may be
  present with the value \<open>None\<close>, hence the two levels of option.
\<close>

record 'd kwargs =
  kw_recording :: "'d option"
  kw_band :: "band option"
  kw_btype :: "string option"
  kw_filter_order :: "int option"
  kw_ftype :: "string option"
  kw_filter_mode :: "string option"
  kw_margin_ms :: "real option"
  kw_dtype :: "np_dtype option option"
  kw_freq_min :: "real option"
  kw_freq_max :: "real option"
  kw_freq :: "real option"
  kw_q :: "real option"

definition no_kwargs :: "'d kwargs" where
  "no_kwargs = \<lparr>kw_recording = None, kw_band = None, kw_btype = None,
     kw_filter_order = None, kw_ftype = None, kw_filter_mode = None, kw_margin_ms = None,
     kw_dtype = None, kw_freq_min = None, kw_freq_max = None, kw_freq = None, kw_q = None\<rparr>"

text \<open>
  The state of a filtering recording (the three classes of the file share it): the element
  type and the annotations kept by the base class, the segments added, and \<open>_kwargs\<close>.
\<close>

record 'd filter_recording =
  fr_dtype :: np_dtype
  annotations :: "string \<rightharpoonup> bool"
  fr_segments :: "filter_segment list"
  fr_kwargs :: "'d kwargs"

section \<open>Python primitives\<close>

text \<open>
  \<open>int(x)\<close> on a float truncates a finite value towards zero, raises an OverflowError
  on an infinity and a ValueError on not a number.
\<close>

fun py_int :: "pyfloat \<Rightarrow> error + int" where
  "py_int (Finite x) = Inr (if x < 0 then \<lceil>x\<rceil> else \<lfloor>x\<rfloor>)"
| "py_int PosInf = Inl OverflowError"
| "py_int NegInf = Inl OverflowError"
| "py_int NaN = Inl ValueError"

text \<open>
  The expression \<open>int(margin_ms * sf / 1000.)\<close> of lines 70 and 165: the product and
  the quotient are binary64 operations, evaluated from left to right.
\<close>

definition margin_samples :: "lib \<Rightarrow> real \<Rightarrow> real \<Rightarrow> error + int" where
  "margin_samples L margin_ms sf =
     py_int (float_div L (float_mul L (Finite margin_ms) (Finite sf)) (Finite 1000))"

text \<open>
  A slice bound \<open>i\<close> on a sequence of length \<open>n\<close>: a negative bound counts from the
  end, and every bound is clipped to the sequence.
\<close>

definition slice_index :: "int \<Rightarrow> nat \<Rightarrow> nat" where
  "slice_index i n = (if i < 0 then nat (max 0 (i + int n)) else min (nat i) n)"

text \<open>\<open>xs[start:stop]\<close>, and \<open>xs[start:]\<close> when \<open>stop\<close> is \<open>None\<close>.\<close>

definition py_slice :: "'a list \<Rightarrow> int \<Rightarrow> int option \<Rightarrow> 'a list" where
  "py_slice xs start stop =
     (let n = length xs;
          s = slice_index start n;
          e = (case stop of None \<Rightarrow> n | Some j \<Rightarrow> slice_index j n)
      in take (e - s) (drop s xs))"

text \<open>\<open>a[start:stop, :]\<close> on a buffer: the rows are sliced, the columns are all kept.\<close>

definition slice_rows :: "traces \<Rightarrow> int \<Rightarrow> int option \<Rightarrow> traces" where
  "slice_rows a start stop = a\<lparr>samples := py_slice (samples a) start stop\<rparr>"

text \<open>\<open>a.astype(dtype)\<close>.\<close>

definition astype :: "lib \<Rightarrow> traces \<Rightarrow> np_dtype \<Rightarrow> traces" where
  "astype L a d = a\<lparr>elem_dtype := d, samples := map (map (astype_elem L d)) (samples a)\<rparr>"

section \<open>The filter segment\<close>

text \<open>
  Modelled from the spec: \<open>get_chunk_with_margin\<close> of \<^verbatim>\<open>tools.py\<close>, which is not among
  the sources. The requested window is widened by the margin on each side and clipped to
  the segment; the margins really obtained are returned with the buffer.
\<close>

definition get_chunk_with_margin ::
  "segment \<Rightarrow> int \<Rightarrow> int \<Rightarrow> nat list \<Rightarrow> int \<Rightarrow> error + (traces \<times> int \<times> int)" where
  "get_chunk_with_margin rec_segment start_frame end_frame channel_indices mrg =
     (let left = max 0 (start_frame - mrg);
          left_margin = start_frame - left;
          right = min (get_num_frames rec_segment) (end_frame + mrg);
          right_margin = right - end_frame
      in case get_traces rec_segment left right channel_indices of
           Inl e \<Rightarrow> Inl e
         | Inr traces_chunk \<Rightarrow> Inr (traces_chunk, left_margin, right_margin))"

text \<open>
  Lines 93 to 97 of \<open>get_traces\<close>: the branch on \<open>filter_mode\<close>. The result \<open>None\<close> is
  the state in which the variable \<open>filtered_traces\<close> has not been assigned. Unpacking
  \<open>b, a = self.coeff\<close> needs exactly two items.
\<close>

definition apply_filter :: "lib \<Rightarrow> filter_segment \<Rightarrow> traces \<Rightarrow> error + traces option" where
  "apply_filter L self traces_chunk =
     (if filter_mode self = ''sos'' then
        (case sosfiltfilt L (coeff self) traces_chunk of
           Inl e \<Rightarrow> Inl e
         | Inr y \<Rightarrow> Inr (Some y))
      else if filter_mode self = ''ba'' then
        (case coeff self of
           [b, a] \<Rightarrow>
             (case filtfilt L b a traces_chunk of
                Inl e \<Rightarrow> Inl e
              | Inr y \<Rightarrow> Inr (Some y))
         | _ \<Rightarrow> Inl ValueError)
      else Inr None)"

text \<open>Lines 99 to 102 of \<open>get_traces\<close>: the margins are cut off.\<close>

definition trim_margins :: "traces \<Rightarrow> int \<Rightarrow> int \<Rightarrow> traces" where
  "trim_margins filtered_traces left_margin right_margin =
     (if right_margin > 0 then slice_rows filtered_traces left_margin (Some (- right_margin))
      else slice_rows filtered_traces left_margin None)"

text \<open>\<open>FilterRecordingSegment.get_traces\<close>.\<close>

definition FilterRecordingSegment_get_traces ::
  "lib \<Rightarrow> filter_segment \<Rightarrow> int \<Rightarrow> int \<Rightarrow> nat list \<Rightarrow> error + traces" where
  "FilterRecordingSegment_get_traces L self start_frame end_frame channel_indices =
     (case get_chunk_with_margin (parent_recording_segment self) start_frame end_frame
             channel_indices (margin self) of
        Inl e \<Rightarrow> Inl e
      | Inr (traces_chunk, left_margin, right_margin) \<Rightarrow>
          (case apply_filter L self traces_chunk of
             Inl e \<Rightarrow> Inl e
           | Inr None \<Rightarrow> Inl UnboundLocalError
           | Inr (Some filtered_traces) \<Rightarrow>
               Inr (astype L (trim_margins filtered_traces left_margin right_margin)
                      (dtype self))))"

section \<open>The filtering recordings\<close>

text \<open>\<open>FilterRecordingSegment.__init__\<close>.\<close>

definition FilterRecordingSegment_init ::
  "segment \<Rightarrow> real list list \<Rightarrow> string \<Rightarrow> int \<Rightarrow> np_dtype \<Rightarrow> filter_segment" where
  "FilterRecordingSegment_init parent_segment cf fmode mrg dt =
     \<lparr>parent_recording_segment = parent_segment, coeff = cf, filter_mode = fmode,
      margin = mrg, dtype = dt\<rparr>"

text \<open>
  Modelled from the spec: \<open>BasePreprocessor.__init__\<close> of
  \<^verbatim>\<open>basepreprocessor.py\<close>, which is not among the sources. The initialiser of the
  base class fixes the element type that \<open>get_dtype()\<close> returns: the explicit one when
  it is given and the parent's otherwise. The new recording has no segment yet.
\<close>

definition BasePreprocessor_init :: "'d recording \<Rightarrow> np_dtype option \<Rightarrow> 'd filter_recording" where
  "BasePreprocessor_init recording dt =
     \<lparr>fr_dtype = (case dt of None \<Rightarrow> get_dtype recording | Some d \<Rightarrow> d),
      annotations = Map.empty, fr_segments = [], fr_kwargs = no_kwargs\<rparr>"

text \<open>
  Modelled from the spec: \<open>annotate\<close> of the base class, not among the sources, which
  records an annotation on the recording.
\<close>

definition annotate :: "'d filter_recording \<Rightarrow> string \<Rightarrow> bool \<Rightarrow> 'd filter_recording" where
  "annotate self k v = self\<lparr>annotations := (annotations self)(k \<mapsto> v)\<rparr>"

text \<open>
  Modelled from the spec: \<open>add_recording_segment\<close> of the base class, not among the
  sources, which appends a segment to the recording's ordered collection.
\<close>

definition add_recording_segment ::
  "'d filter_recording \<Rightarrow> filter_segment \<Rightarrow> 'd filter_recording" where
  "add_recording_segment self seg = self\<lparr>fr_segments := fr_segments self @ [seg]\<rparr>"

text \<open>
  Lines 57 to 61 of \<open>FilterRecording.__init__\<close>: the band in units of the Nyquist
  frequency. \<open>len\<close> of a float and \<open>float\<close> of a list raise a TypeError, and a float
  division by zero raises.
\<close>

definition normalized_Wn :: "band \<Rightarrow> string \<Rightarrow> real \<Rightarrow> error + band" where
  "normalized_Wn bnd btype sf =
     (if btype \<in> set [''bandpass'', ''bandstop''] then
        (case bnd of
           Cutoff c \<Rightarrow> Inl TypeError
         | Edges es \<Rightarrow>
             if length es \<noteq> 2 then Inl AssertionError
             else if sf = 0 then Inl ZeroDivisionError
             else Inr (Edges (map (\<lambda>e. e / sf * 2) es)))
      else
        (case bnd of
           Edges es \<Rightarrow> Inl TypeError
         | Cutoff c \<Rightarrow> if sf = 0 then Inl ZeroDivisionError else Inr (Cutoff (c / sf * 2))))"

text \<open>\<open>FilterRecording.__init__\<close>.\<close>

definition FilterRecording_init ::
  "lib \<Rightarrow> 'd recording \<Rightarrow> band \<Rightarrow> string \<Rightarrow> int \<Rightarrow> string \<Rightarrow> string \<Rightarrow> real \<Rightarrow> np_dtype option
     \<Rightarrow> error + 'd filter_recording" where
  "FilterRecording_init L recording bnd btype filter_order ftype fmode margin_ms dt =
     (if btype \<notin> set [''bandpass'', ''lowpass'', ''highpass'', ''bandstop''] then Inl AssertionError
      else if fmode \<notin> set [''sos'', ''ba''] then Inl AssertionError
      else
        let sf = get_sampling_frequency recording in
        case normalized_Wn bnd btype sf of
          Inl e \<Rightarrow> Inl e
        | Inr Wn \<Rightarrow>
            (case iirfilter L filter_order Wn btype ftype fmode of
               Inl e \<Rightarrow> Inl e
             | Inr cf \<Rightarrow>
                 let self0 = BasePreprocessor_init recording dt;
                     dtype_base = fr_dtype self0;
                     self1 = annotate self0 ''is_filtered'' True
                 in case margin_samples L margin_ms sf of
                      Inl e \<Rightarrow> Inl e
                    | Inr mrg \<Rightarrow>
                        let self2 = fold (\<lambda>parent_segment self.
                                      add_recording_segment self
                                        (FilterRecordingSegment_init parent_segment cf fmode mrg
                                           dtype_base))
                                      (recording_segments recording) self1
                        in Inr (self2\<lparr>fr_kwargs := no_kwargs\<lparr>
                             kw_recording := Some (to_dict recording), kw_band := Some bnd,
                             kw_btype := Some btype, kw_filter_order := Some filter_order,
                             kw_ftype := Some ftype, kw_filter_mode := Some fmode,
                             kw_margin_ms := Some margin_ms\<rparr>\<rparr>)))"

text \<open>
  The call \<open>FilterRecording(recording, **kw)\<close>: a key that is no parameter of the
  initialiser, or a second value for \<open>recording\<close>, is a TypeError; an absent key takes the
  default of the signature.
\<close>

definition FilterRecording_call ::
  "lib \<Rightarrow> 'd recording \<Rightarrow> 'd kwargs \<Rightarrow> error + 'd filter_recording" where
  "FilterRecording_call L recording kw =
     (if kw_recording kw \<noteq> None \<or> kw_freq_min kw \<noteq> None \<or> kw_freq_max kw \<noteq> None
         \<or> kw_freq kw \<noteq> None \<or> kw_q kw \<noteq> None then Inl TypeError
      else FilterRecording_init L recording
             (case kw_band kw of None \<Rightarrow> Edges [300, 6000] | Some b \<Rightarrow> b)
             (case kw_btype kw of None \<Rightarrow> ''bandpass'' | Some t \<Rightarrow> t)
             (case kw_filter_order kw of None \<Rightarrow> 5 | Some n \<Rightarrow> n)
             (case kw_ftype kw of None \<Rightarrow> ''butter'' | Some t \<Rightarrow> t)
             (case kw_filter_mode kw of None \<Rightarrow> ''sos'' | Some m \<Rightarrow> m)
             (case kw_margin_ms kw of None \<Rightarrow> 5 | Some m \<Rightarrow> m)
             (case kw_dtype kw of None \<Rightarrow> None | Some d \<Rightarrow> d))"

text \<open>\<open>d.update(e)\<close> on dictionaries: the keys of \<open>e\<close> override.\<close>

definition upd :: "'a option \<Rightarrow> 'a option \<Rightarrow> 'a option" where
  "upd x y = (case y of None \<Rightarrow> x | Some v \<Rightarrow> Some v)"

definition kwargs_update :: "'d kwargs \<Rightarrow> 'd kwargs \<Rightarrow> 'd kwargs" where
  "kwargs_update d e =
     \<lparr>kw_recording = upd (kw_recording d) (kw_recording e),
      kw_band = upd (kw_band d) (kw_band e),
      kw_btype = upd (kw_btype d) (kw_btype e),
      kw_filter_order = upd (kw_filter_order d) (kw_filter_order e),
      kw_ftype = upd (kw_ftype d) (kw_ftype e),
      kw_filter_mode = upd (kw_filter_mode d) (kw_filter_mode e),
      kw_margin_ms = upd (kw_margin_ms d) (kw_margin_ms e),
      kw_dtype = upd (kw_dtype d) (kw_dtype e),
      kw_freq_min = upd (kw_freq_min d) (kw_freq_min e),
      kw_freq_max = upd (kw_freq_max d) (kw_freq_max e),
      kw_freq = upd (kw_freq d) (kw_freq e),
      kw_q = upd (kw_q d) (kw_q e)\<rparr>"

text \<open>
  \<open>BandpassFilterRecording.__init__\<close>. The call of the parent initialiser passes
  \<open>band\<close>, \<open>margin_ms\<close> and \<open>dtype\<close> by keyword next to \<open>**filter_kwargs\<close>: a key
  given twice is a TypeError.
\<close>

definition BandpassFilterRecording_init ::
  "lib \<Rightarrow> 'd recording \<Rightarrow> real \<Rightarrow> real \<Rightarrow> real \<Rightarrow> np_dtype option \<Rightarrow> 'd kwargs
     \<Rightarrow> error + 'd filter_recording" where
  "BandpassFilterRecording_init L recording freq_min freq_max margin_ms dt filter_kwargs =
     (if kw_band filter_kwargs \<noteq> None \<or> kw_margin_ms filter_kwargs \<noteq> None
         \<or> kw_dtype filter_kwargs \<noteq> None then Inl TypeError
      else
        case FilterRecording_call L recording
               (filter_kwargs\<lparr>kw_band := Some (Edges [freq_min, freq_max]),
                  kw_margin_ms := Some margin_ms, kw_dtype := Some dt\<rparr>) of
          Inl e \<Rightarrow> Inl e
        | Inr self \<Rightarrow>
            Inr (self\<lparr>fr_kwargs := kwargs_update
                   (no_kwargs\<lparr>kw_recording := Some (to_dict recording),
                      kw_freq_min := Some freq_min, kw_freq_max := Some freq_max,
                      kw_margin_ms := Some margin_ms\<rparr>)
                   filter_kwargs\<rparr>))"

text \<open>
  The call \<open>BandpassFilterRecording(recording, **kw)\<close>, which is \<open>bandpass_filter\<close>
  too: the keys that are parameters are bound, the others are \<open>filter_kwargs\<close>.
\<close>

definition BandpassFilterRecording_call ::
  "lib \<Rightarrow> 'd recording \<Rightarrow> 'd kwargs \<Rightarrow> error + 'd filter_recording" where
  "BandpassFilterRecording_call L recording kw =
     (if kw_recording kw \<noteq> None then Inl TypeError
      else BandpassFilterRecording_init L recording
             (case kw_freq_min kw of None \<Rightarrow> 300 | Some f \<Rightarrow> f)
             (case kw_freq_max kw of None \<Rightarrow> 6000 | Some f \<Rightarrow> f)
             (case kw_margin_ms kw of None \<Rightarrow> 5 | Some m \<Rightarrow> m)
             (case kw_dtype kw of None \<Rightarrow> None | Some d \<Rightarrow> d)
             (kw\<lparr>kw_freq_min := None, kw_freq_max := None, kw_margin_ms := None,
                kw_dtype := None\<rparr>))"

text \<open>\<open>NotchFilterRecording.__init__\<close>.\<close>

definition NotchFilterRecording_init ::
  "lib \<Rightarrow> 'd recording \<Rightarrow> real \<Rightarrow> real \<Rightarrow> real \<Rightarrow> np_dtype option \<Rightarrow> error + 'd filter_recording" where
  "NotchFilterRecording_init L recording freq q margin_ms dt =
     (let fn = (1 / 2) * get_sampling_frequency recording in
      if fn = 0 then Inl ZeroDivisionError
      else
        case iirnotch L (freq / fn) q of
          Inl e \<Rightarrow> Inl e
        | Inr (b, a) \<Rightarrow>
            let cf = [b, a];
                self0 = BasePreprocessor_init recording dt;
                dtype_base = fr_dtype self0;
                self1 = annotate self0 ''is_filtered'' True;
                sf = get_sampling_frequency recording
            in case margin_samples L margin_ms sf of
                 Inl e \<Rightarrow> Inl e
               | Inr mrg \<Rightarrow>
                   let self2 = fold (\<lambda>parent_segment self.
                                 add_recording_segment self
                                   (FilterRecordingSegment_init parent_segment cf ''ba'' mrg
                                      dtype_base))
                                 (recording_segments recording) self1
                   in Inr (self2\<lparr>fr_kwargs := no_kwargs\<lparr>
                        kw_recording := Some (to_dict recording), kw_freq := Some freq,
                        kw_q := Some q, kw_margin_ms := Some margin_ms\<rparr>\<rparr>))"

text \<open>The call \<open>NotchFilterRecording(recording, **kw)\<close>, which is \<open>notch_filter\<close> too.\<close>

definition NotchFilterRecording_call ::
  "lib \<Rightarrow> 'd recording \<Rightarrow> 'd kwargs \<Rightarrow> error + 'd filter_recording" where
  "NotchFilterRecording_call L recording kw =
     (if kw_recording kw \<noteq> None \<or> kw_band kw \<noteq> None \<or> kw_btype kw \<noteq> None
         \<or> kw_filter_order kw \<noteq> None \<or> kw_ftype kw \<noteq> None \<or> kw_filter_mode kw \<noteq> None
         \<or> kw_freq_min kw \<noteq> None \<or> kw_freq_max kw \<noteq> None then Inl TypeError
      else NotchFilterRecording_init L recording
             (case kw_freq kw of None \<Rightarrow> 3000 | Some f \<Rightarrow> f)
             (case kw_q kw of None \<Rightarrow> 30 | Some x \<Rightarrow> x)
             (case kw_margin_ms kw of None \<Rightarrow> 5 | Some m \<Rightarrow> m)
             (case kw_dtype kw of None \<Rightarrow> None | Some d \<Rightarrow> d))"

text \<open>
  The function \<open>filter\<close> of the API. The class \<open>FilterOpenCLRecording\<close> of
  \<^verbatim>\<open>filter_opencl.py\<close> is not among the sources: importing and calling it is the
  parameter \<open>opencl\<close>. A Python function that ends without \<open>return\<close> returns \<open>None\<close>.
\<close>

definition filter_fun ::
  "lib \<Rightarrow> ('d recording \<Rightarrow> 'd kwargs \<Rightarrow> error + 'o) \<Rightarrow> 'd recording \<Rightarrow> string \<Rightarrow> 'd kwargs
     \<Rightarrow> error + ('d filter_recording + 'o) option" where
  "filter_fun L opencl recording engine kw =
     (if engine = ''scipy'' then
        (case FilterRecording_call L recording kw of
           Inl e \<Rightarrow> Inl e
         | Inr r \<Rightarrow> Inr (Some (Inl r)))
      else if engine = ''opencl'' then
        (case opencl recording kw of
           Inl e \<Rightarrow> Inl e
         | Inr r \<Rightarrow> Inr (Some (Inr r)))
      else Inr None)"

section \<open>Reconstruction from the parameter set\<close>

text \<open>
  Modelled from the spec: the loader that rebuilds an instance from its parameter set is
  not among the sources. It calls the class with the parameter set as keyword arguments,
  the parent description under the key \<open>recording\<close> replaced by the parent itself.
  Here for \<open>FilterRecording\<close>.
\<close>

definition FilterRecording_from_kwargs ::
  "lib \<Rightarrow> 'd recording \<Rightarrow> 'd kwargs \<Rightarrow> error + 'd filter_recording" where
  "FilterRecording_from_kwargs L parent kw =
     (case kw_recording kw of
        None \<Rightarrow> Inl TypeError
      | Some d \<Rightarrow> FilterRecording_call L parent (kw\<lparr>kw_recording := None\<rparr>))"

text \<open>Modelled from the spec: the same loader, absent, for \<open>BandpassFilterRecording\<close>.\<close>

definition BandpassFilterRecording_from_kwargs ::
  "lib \<Rightarrow> 'd recording \<Rightarrow> 'd kwargs \<Rightarrow> error + 'd filter_recording" where
  "BandpassFilterRecording_from_kwargs L parent kw =
     (case kw_recording kw of
        None \<Rightarrow> Inl TypeError
      | Some d \<Rightarrow> BandpassFilterRecording_call L parent (kw\<lparr>kw_recording := None\<rparr>))"

text \<open>Modelled from the spec: the same loader, absent, for \<open>NotchFilterRecording\<close>.\<close>

definition NotchFilterRecording_from_kwargs ::
  "lib \<Rightarrow> 'd recording \<Rightarrow> 'd kwargs \<Rightarrow> error + 'd filter_recording" where
  "NotchFilterRecording_from_kwargs L parent kw =
     (case kw_recording kw of
        None \<Rightarrow> Inl TypeError
      | Some d \<Rightarrow> NotchFilterRecording_call L parent (kw\<lparr>kw_recording := None\<rparr>))"

section \<open>Concrete inputs\<close>

text \<open>
  Exact multiplication and division of finite values. On the values used below
  (\<open>0.5 \<cdot> 1500 = 750\<close>, \<open>750 / 1000 = 0.75\<close>, \<open>5 \<cdot> 1500 = 7500\<close>,
  \<open>7500 / 1000 = 7.5\<close>) the exact results are binary64 values, so that the binary64
  operations return them.
\<close>

fun exact_mul :: "pyfloat \<Rightarrow> pyfloat \<Rightarrow> pyfloat" where
  "exact_mul (Finite x) (Finite y) = Finite (x * y)"
| "exact_mul x y = NaN"

fun exact_div :: "pyfloat \<Rightarrow> pyfloat \<Rightarrow> pyfloat" where
  "exact_div (Finite x) (Finite y) = Finite (x / y)"
| "exact_div x y = NaN"

text \<open>
  A library whose filters return their input and whose designs return fixed
  coefficients, a segment over an array in memory, and a recording of one such segment
  of six frames and two channels, sampled at 1500 Hz.
\<close>

definition example_lib :: lib where
  "example_lib =
     \<lparr>iirfilter = (\<lambda>N Wn btype ftype output.
         Inr (if output = ''sos'' then [[1, 0, 0, 1, 0, 0]] else [[1], [1]])),
      iirnotch = (\<lambda>w0 q. Inr ([1], [1])),
      sosfiltfilt = (\<lambda>sos x. Inr x),
      filtfilt = (\<lambda>b a x. Inr x),
      astype_elem = (\<lambda>d v. v),
      float_mul = exact_mul,
      float_div = exact_div\<rparr>"

text \<open>
  The default pad length of \<open>scipy.signal.sosfiltfilt\<close>: three times the number of
  taps, which is \<open>2 \<cdot> n_sections + 1\<close> less the smaller of the numbers of sections whose
  third and whose sixth coefficient is zero.
\<close>

definition sos_padlen :: "real list list \<Rightarrow> nat" where
  "sos_padlen sos =
     3 * (2 * length sos + 1
          - min (length (filter (\<lambda>sec. sec ! 2 = 0) sos))
                (length (filter (\<lambda>sec. sec ! 5 = 0) sos)))"

text \<open>
  A library whose filters refuse, as those of scipy do, a chunk with no more rows than
  the pad length (for \<open>filtfilt\<close>, three times the longer of \<open>a\<close> and \<open>b\<close>), with
  a ValueError. Any other chunk they return as an array of \<open>float64\<close> with the same
  values: that is what the filters of scipy compute for the coefficients used below,
  the single section \<open>[1, 0, 0, 1, 0, 0]\<close> and the pair \<open>[1], [1]\<close>, whose transfer
  function is 1.
\<close>

definition padding_lib :: lib where
  "padding_lib = example_lib
     \<lparr>sosfiltfilt := (\<lambda>sos x.
        if length (samples x) \<le> sos_padlen sos then Inl ValueError
        else Inr (x\<lparr>elem_dtype := Float64\<rparr>)),
      filtfilt := (\<lambda>b a x.
        if length (samples x) \<le> 3 * max (length a) (length b) then Inl ValueError
        else Inr (x\<lparr>elem_dtype := Float64\<rparr>))\<rparr>"

definition array_segment :: "np_dtype \<Rightarrow> real list list \<Rightarrow> segment" where
  "array_segment d rows =
     \<lparr>get_num_frames = int (length rows),
      get_traces = (\<lambda>start_frame end_frame channel_indices.
        if 0 \<le> start_frame \<and> start_frame \<le> end_frame \<and> end_frame \<le> int (length rows)
        then Inr \<lparr>elem_dtype = d, n_channels = length channel_indices,
               samples = map (\<lambda>row. map (\<lambda>c. row ! c) channel_indices)
                           (take (nat (end_frame - start_frame)) (drop (nat start_frame) rows))\<rparr>
        else Inl ValueError)\<rparr>"

definition example_rows :: "real list list" where
  "example_rows = [[1, 2], [3, 4], [5, 6], [7, 8], [9, 10], [11, 12]]"

definition example_recording :: "unit recording" where
  "example_recording =
     \<lparr>get_sampling_frequency = 1500, get_dtype = Int16,
      recording_segments = [array_segment Int16 example_rows], to_dict = ()\<rparr>"

definition example_segment :: filter_segment where
  "example_segment = FilterRecordingSegment_init (array_segment Int16 example_rows)
     [[1, 0, 0, 1, 0, 0]] ''sos'' 1 Float32"

text \<open>
  The generic filter over the example recording with the defaults of the signature, the
  band from 300 to 600 Hz and the element type \<open>Float32\<close>.
\<close>

definition example_filter_recording :: "unit filter_recording" where
  "example_filter_recording =
     \<lparr>fr_dtype = Float32, annotations = [''is_filtered'' \<mapsto> True],
      fr_segments = [FilterRecordingSegment_init (array_segment Int16 example_rows)
         [[1, 0, 0, 1, 0, 0]] ''sos'' 7 Float32],
      fr_kwargs = no_kwargs\<lparr>kw_recording := Some (), kw_band := Some (Edges [300, 600]),
         kw_btype := Some ''bandpass'', kw_filter_order := Some 5, kw_ftype := Some ''butter'',
         kw_filter_mode := Some ''sos'', kw_margin_ms := Some 5\<rparr>\<rparr>"

text \<open>
  A segment of twelve frames and two channels, and two filter segments over it, built
  directly: one with a margin of one sample, one with a margin of minus one sample.
\<close>

definition long_rows :: "real list list" where
  "long_rows = [[1, 2], [3, 4], [5, 6], [7, 8], [9, 10], [11, 12],
                [13, 14], [15, 16], [17, 18], [19, 20], [21, 22], [23, 24]]"

definition long_segment :: filter_segment where
  "long_segment = FilterRecordingSegment_init (array_segment Int16 long_rows)
     [[1, 0, 0, 1, 0, 0]] ''sos'' 1 Float32"

definition negative_margin_segment :: filter_segment where
  "negative_margin_segment = FilterRecordingSegment_init (array_segment Int16 long_rows)
     [[1, 0, 0, 1, 0, 0]] ''sos'' (- 1) Float32"

section \<open>The trimming step\<close>

lemma slice_index_nonneg: "0 \<le> i \<Longrightarrow> slice_index i n = min (nat i) n"
  by (simp add: slice_index_def)

lemma slice_index_neg: "i < 0 \<Longrightarrow> slice_index i n = nat (i + int n)"
  by (simp add: slice_index_def)

lemma length_py_slice_back:
  assumes "0 \<le> l" and "0 < r" and "l + r \<le> int (length xs)"
  shows "length (py_slice xs l (Some (- r))) = nat (int (length xs) - l - r)"
  using assms by (simp add: py_slice_def Let_def slice_index_nonneg slice_index_neg)

lemma length_py_slice_open:
  assumes "0 \<le> l" and "l \<le> int (length xs)"
  shows "length (py_slice xs l None) = nat (int (length xs) - l)"
  using assms by (simp add: py_slice_def Let_def slice_index_nonneg)

lemma py_slice_back_eq:
  assumes "0 \<le> l" and "0 < r" and "l + r \<le> int (length xs)"
  shows "py_slice xs l (Some (- r)) = take (length xs - nat l - nat r) (drop (nat l) xs)"
proof -
  have "nat (int (length xs) - r) - nat l = length xs - (nat l + nat r)"
    using assms by linarith
  with assms show ?thesis
    by (simp add: py_slice_def Let_def slice_index_nonneg slice_index_neg)
qed

lemma py_slice_open_eq:
  assumes "0 \<le> l"
  shows "py_slice xs l None = drop (nat l) xs"
  using assms by (cases "nat l \<le> length xs")
    (simp_all add: py_slice_def Let_def slice_index_nonneg min_def)

lemma py_slice_stop_zero: "py_slice xs l (Some 0) = []"
  by (simp add: py_slice_def Let_def slice_index_def)

text \<open>
  C9. A filtered buffer of \<open>n\<close> rows, trimmed with margins \<open>left_margin\<close> and
  \<open>right_margin\<close> that are not negative and together at most \<open>n\<close>, has exactly
  \<open>n - left_margin - right_margin\<close> rows and its columns unchanged. This holds for
  \<open>right_margin = 0\<close> too, where the code slices \<open>[left_margin:]\<close>; the slice
  \<open>[left_margin:-0]\<close> would be empty.
\<close>

theorem trim_margins_rows:
  assumes "0 \<le> left_margin" and "0 \<le> right_margin"
    and "left_margin + right_margin \<le> int (length (samples filtered_traces))"
  shows "int (length (samples (trim_margins filtered_traces left_margin right_margin)))
           = int (length (samples filtered_traces)) - left_margin - right_margin
         \<and> n_channels (trim_margins filtered_traces left_margin right_margin)
           = n_channels filtered_traces
         \<and> (right_margin = 0 \<longrightarrow>
              samples (trim_margins filtered_traces left_margin right_margin)
                = py_slice (samples filtered_traces) left_margin None
              \<and> py_slice (samples filtered_traces) left_margin (Some (- 0)) = [])"
proof (cases "right_margin > 0")
  case True
  with assms show ?thesis
    by (simp add: trim_margins_def slice_rows_def length_py_slice_back)
next
  case False
  with assms have "right_margin = 0" by simp
  with assms show ?thesis
    by (simp add: trim_margins_def slice_rows_def length_py_slice_open py_slice_stop_zero)
qed

theorem trim_margins_rows_witness:
  "(0::int) \<le> 1 \<and> (0::int) \<le> 0
   \<and> 1 + 0 \<le> int (length (samples \<lparr>elem_dtype = Int16, n_channels = 1, samples = [[1], [2], [3]]\<rparr>))
   \<and> int (length (samples (trim_margins
        \<lparr>elem_dtype = Int16, n_channels = 1, samples = [[1], [2], [3]]\<rparr> 1 0))) = 2
   \<and> samples (trim_margins
        \<lparr>elem_dtype = Int16, n_channels = 1, samples = [[1], [2], [3]]\<rparr> 1 0) = [[2], [3]]"
  using trim_margins_rows [of 1 0 "\<lparr>elem_dtype = Int16, n_channels = 1, samples = [[1], [2], [3]]\<rparr>"]
  by (simp add: py_slice_def slice_index_def)

section \<open>What the initialisers build\<close>


lemma fold_add_segments:
  "fold (\<lambda>p self. add_recording_segment self (f p)) ps self0
     = self0\<lparr>fr_segments := fr_segments self0 @ map f ps\<rparr>"
  by (induction ps arbitrary: self0) (simp_all add: add_recording_segment_def)

lemma FilterRecording_init_Inr:
  assumes "FilterRecording_init L recording bnd btype N ftype fmode margin_ms dt = Inr r"
  shows "\<exists>Wn cf mrg.
     btype \<in> set [''bandpass'', ''lowpass'', ''highpass'', ''bandstop'']
     \<and> fmode \<in> set [''sos'', ''ba'']
     \<and> normalized_Wn bnd btype (get_sampling_frequency recording) = Inr Wn
     \<and> iirfilter L N Wn btype ftype fmode = Inr cf
     \<and> margin_samples L margin_ms (get_sampling_frequency recording) = Inr mrg
     \<and> r = \<lparr>fr_dtype = (case dt of None \<Rightarrow> get_dtype recording | Some d \<Rightarrow> d),
            annotations = [''is_filtered'' \<mapsto> True],
            fr_segments = map (\<lambda>p. FilterRecordingSegment_init p cf fmode
                mrg
                (case dt of None \<Rightarrow> get_dtype recording | Some d \<Rightarrow> d))
              (recording_segments recording),
            fr_kwargs = no_kwargs\<lparr>
                      kw_recording := Some (to_dict recording), kw_band := Some bnd,
                      kw_btype := Some btype, kw_filter_order := Some N,
                      kw_ftype := Some ftype, kw_filter_mode := Some fmode,
                      kw_margin_ms := Some margin_ms\<rparr>\<rparr>"
  using assms
  unfolding FilterRecording_init_def Let_def fold_add_segments
  by (auto simp: BasePreprocessor_init_def annotate_def split: if_splits sum.splits)

lemma NotchFilterRecording_init_Inr:
  assumes "NotchFilterRecording_init L recording freq q margin_ms dt = Inr r"
  shows "\<exists>b a mrg.
     get_sampling_frequency recording \<noteq> 0
     \<and> iirnotch L (freq / ((1 / 2) * get_sampling_frequency recording)) q = Inr (b, a)
     \<and> margin_samples L margin_ms (get_sampling_frequency recording) = Inr mrg
     \<and> r = \<lparr>fr_dtype = (case dt of None \<Rightarrow> get_dtype recording | Some d \<Rightarrow> d),
            annotations = [''is_filtered'' \<mapsto> True],
            fr_segments = map (\<lambda>p. FilterRecordingSegment_init p [b, a] ''ba''
                mrg
                (case dt of None \<Rightarrow> get_dtype recording | Some d \<Rightarrow> d))
              (recording_segments recording),
            fr_kwargs = no_kwargs\<lparr>
                 kw_recording := Some (to_dict recording), kw_freq := Some freq,
                 kw_q := Some q, kw_margin_ms := Some margin_ms\<rparr>\<rparr>"
  using assms
  unfolding NotchFilterRecording_init_def Let_def fold_add_segments
  by (auto simp: BasePreprocessor_init_def annotate_def split: if_splits sum.splits prod.splits)


lemma upd_None_left: "upd None y = y"
  by (cases y) (simp_all add: upd_def)

lemma upd_None_right: "upd x None = x"
  by (simp add: upd_def)

lemma BandpassFilterRecording_init_Inr:
  assumes "BandpassFilterRecording_init L recording freq_min freq_max margin_ms dt fk = Inr r"
  shows "\<exists>r0.
     kw_recording fk = None \<and> kw_band fk = None \<and> kw_margin_ms fk = None \<and> kw_dtype fk = None
     \<and> kw_freq_min fk = None \<and> kw_freq_max fk = None \<and> kw_freq fk = None \<and> kw_q fk = None
     \<and> FilterRecording_init L recording (Edges [freq_min, freq_max])
          (case kw_btype fk of None \<Rightarrow> ''bandpass'' | Some t \<Rightarrow> t)
          (case kw_filter_order fk of None \<Rightarrow> 5 | Some n \<Rightarrow> n)
          (case kw_ftype fk of None \<Rightarrow> ''butter'' | Some t \<Rightarrow> t)
          (case kw_filter_mode fk of None \<Rightarrow> ''sos'' | Some m \<Rightarrow> m)
          margin_ms dt = Inr r0
     \<and> r = r0\<lparr>fr_kwargs := no_kwargs\<lparr>kw_recording := Some (to_dict recording),
            kw_freq_min := Some freq_min, kw_freq_max := Some freq_max,
            kw_margin_ms := Some margin_ms, kw_btype := kw_btype fk,
            kw_filter_order := kw_filter_order fk, kw_ftype := kw_ftype fk,
            kw_filter_mode := kw_filter_mode fk\<rparr>\<rparr>"
  using assms
  unfolding BandpassFilterRecording_init_def FilterRecording_call_def
  by (auto simp: kwargs_update_def upd_None_left upd_None_right no_kwargs_def
      split: if_splits sum.splits)

lemma built_segments:
  assumes "FilterRecording_init L recording bnd btype N ftype fmode margin_ms dt = Inr r
           \<or> BandpassFilterRecording_init L recording freq_min freq_max margin_ms dt fk = Inr r
           \<or> NotchFilterRecording_init L recording freq q margin_ms dt = Inr r"
  shows "\<exists>cf m mrg. m \<in> set [''sos'', ''ba'']
      \<and> margin_samples L margin_ms (get_sampling_frequency recording) = Inr mrg
      \<and> fr_dtype r = (case dt of None \<Rightarrow> get_dtype recording | Some d \<Rightarrow> d)
      \<and> annotations r = [''is_filtered'' \<mapsto> True]
      \<and> fr_segments r = map (\<lambda>p. FilterRecordingSegment_init p cf m
                mrg
                (case dt of None \<Rightarrow> get_dtype recording | Some d \<Rightarrow> d))
              (recording_segments recording)"
  using assms
proof (elim disjE)
  assume "FilterRecording_init L recording bnd btype N ftype fmode margin_ms dt = Inr r"
  from FilterRecording_init_Inr [OF this] show ?thesis by force
next
  assume "BandpassFilterRecording_init L recording freq_min freq_max margin_ms dt fk = Inr r"
  from BandpassFilterRecording_init_Inr [OF this] obtain r0 where
    r0: "FilterRecording_init L recording (Edges [freq_min, freq_max])
          (case kw_btype fk of None \<Rightarrow> ''bandpass'' | Some t \<Rightarrow> t)
          (case kw_filter_order fk of None \<Rightarrow> 5 | Some n \<Rightarrow> n)
          (case kw_ftype fk of None \<Rightarrow> ''butter'' | Some t \<Rightarrow> t)
          (case kw_filter_mode fk of None \<Rightarrow> ''sos'' | Some m \<Rightarrow> m)
          margin_ms dt = Inr r0"
    and r: "fr_dtype r = fr_dtype r0" "annotations r = annotations r0"
           "fr_segments r = fr_segments r0"
    by force
  from FilterRecording_init_Inr [OF r0] r show ?thesis by force
next
  assume "NotchFilterRecording_init L recording freq q margin_ms dt = Inr r"
  from NotchFilterRecording_init_Inr [OF this] show ?thesis by force
qed

section \<open>The engine selector\<close>

text \<open>
  C1. The claim is that \<open>filter\<close>, called with an engine selector other than
  \<open>scipy\<close> and \<open>opencl\<close>, fails with a configuration error and never returns
  silently. The code has no branch for such a selector: at the selector \<open>numpy\<close>, for
  every recording and all keyword arguments, the call raises nothing and returns \<open>None\<close>.
\<close>

theorem filter_fun_unknown_engine_returns_None:
  "filter_fun L opencl recording ''numpy'' kw = Inr None"
  by (simp add: filter_fun_def)

section \<open>The margin in samples\<close>

text \<open>
  C3, as amended. In every segment built by the generic, the bandpass and the notch
  filter, the margin in samples is \<open>int\<close> of the float that the product
  \<open>margin_ms * sampling_frequency\<close> and its division by 1000 give: that float is
  finite, and the margin is its truncation towards zero, the floor when it is not
  negative and the ceiling otherwise. It is not the quotient rounded to the nearest
  integer.
\<close>

theorem margin_is_truncation:
  assumes "FilterRecording_init L recording bnd btype N ftype fmode margin_ms dt = Inr r
           \<or> BandpassFilterRecording_init L recording freq_min freq_max margin_ms dt fk = Inr r
           \<or> NotchFilterRecording_init L recording freq q margin_ms dt = Inr r"
    and "s \<in> set (fr_segments r)"
  shows "\<exists>x. float_div L
                (float_mul L (Finite margin_ms) (Finite (get_sampling_frequency recording)))
                (Finite 1000) = Finite x
             \<and> margin s = (if x < 0 then \<lceil>x\<rceil> else \<lfloor>x\<rfloor>)"
proof -
  from built_segments [OF assms(1)] obtain cf m mrg where
    ms: "margin_samples L margin_ms (get_sampling_frequency recording) = Inr mrg"
    and segs: "fr_segments r = map (\<lambda>p. FilterRecordingSegment_init p cf m mrg
                (case dt of None \<Rightarrow> get_dtype recording | Some d \<Rightarrow> d))
              (recording_segments recording)"
    by blast
  from assms(2) have mg: "margin s = mrg"
    by (auto simp: segs FilterRecordingSegment_init_def)
  show ?thesis
  proof (cases "float_div L
                (float_mul L (Finite margin_ms) (Finite (get_sampling_frequency recording)))
                (Finite 1000)")
    case (Finite x)
    with ms mg show ?thesis by (simp add: margin_samples_def)
  next
    case PosInf
    with ms show ?thesis by (simp add: margin_samples_def)
  next
    case NegInf
    with ms show ?thesis by (simp add: margin_samples_def)
  next
    case NaN
    with ms show ?thesis by (simp add: margin_samples_def)
  qed
qed

text \<open>
  The theorem at the example recording, sampled at 1500 Hz, with a margin of half a
  millisecond: the quotient is 3/4 and the margin is 0.
\<close>

theorem margin_is_truncation_witness:
  "FilterRecording_init example_lib example_recording (Edges [300, 600]) ''bandpass'' 5
      ''butter'' ''sos'' (1 / 2) None
     = Inr \<lparr>fr_dtype = Int16, annotations = [''is_filtered'' \<mapsto> True],
        fr_segments = [\<lparr>parent_recording_segment = array_segment Int16 example_rows,
           coeff = [[1, 0, 0, 1, 0, 0]], filter_mode = ''sos'', margin = 0, dtype = Int16\<rparr>],
        fr_kwargs = no_kwargs\<lparr>kw_recording := Some (), kw_band := Some (Edges [300, 600]),
           kw_btype := Some ''bandpass'', kw_filter_order := Some 5, kw_ftype := Some ''butter'',
           kw_filter_mode := Some ''sos'', kw_margin_ms := Some (1 / 2)\<rparr>\<rparr>
   \<and> float_div example_lib
        (float_mul example_lib (Finite (1 / 2)) (Finite (get_sampling_frequency example_recording)))
        (Finite 1000) = Finite (3 / 4)
   \<and> margin \<lparr>parent_recording_segment = array_segment Int16 example_rows,
           coeff = [[1, 0, 0, 1, 0, 0]], filter_mode = ''sos'', margin = 0, dtype = Int16\<rparr>
       = \<lfloor>3 / 4 :: real\<rfloor>"
  using margin_is_truncation [of example_lib example_recording "Edges [300, 600]" "''bandpass''" 5
      "''butter''" "''sos''" "1 / 2" None _ 0 0 no_kwargs 0 0
      "\<lparr>parent_recording_segment = array_segment Int16 example_rows,
           coeff = [[1, 0, 0, 1, 0, 0]], filter_mode = ''sos'', margin = 0, dtype = Int16\<rparr>"]
  by (simp add: FilterRecording_init_def normalized_Wn_def example_lib_def example_recording_def
      BasePreprocessor_init_def annotate_def add_recording_segment_def
      FilterRecordingSegment_init_def margin_samples_def)

text \<open>
  C3 as it is stated fails there: the margin of the only segment is 0, and the quotient
  rounded to the nearest integer is 1. The product 750 and the quotient 0.75 are binary64
  values, so that the floating-point operations are exact at this input.
\<close>

theorem margin_round_counterexample:
  "map_sum id (map margin \<circ> fr_segments)
     (FilterRecording_init example_lib example_recording (Edges [300, 600]) ''bandpass'' 5
        ''butter'' ''sos'' (1 / 2) None) = Inr [0]
   \<and> round ((1 / 2) * get_sampling_frequency example_recording / 1000) = 1"
  by (simp add: FilterRecording_init_def normalized_Wn_def example_lib_def example_recording_def
      BasePreprocessor_init_def annotate_def add_recording_segment_def
      FilterRecordingSegment_init_def margin_samples_def round_def)

section \<open>Validation at construction\<close>

text \<open>
  C4. The generic filter checks its arguments before anything else. When the filter
  family is none of \<open>bandpass\<close>, \<open>lowpass\<close>, \<open>highpass\<close>, \<open>bandstop\<close>, or the
  representation is neither \<open>sos\<close> nor \<open>ba\<close>, or the family is \<open>bandpass\<close> or
  \<open>bandstop\<close> and the band is not a list of exactly two frequencies, the initialiser
  raises an AssertionError or a TypeError, and the same one whatever the coefficient design
  and the parent's segments are: neither has been used. Construction is atomic: when the
  initialiser returns a recording, the arguments are valid and the recording has one
  segment for each segment of the parent, with the representation asked for.
\<close>

theorem FilterRecording_init_atomic:
  "(btype \<notin> set [''bandpass'', ''lowpass'', ''highpass'', ''bandstop'']
      \<or> fmode \<notin> set [''sos'', ''ba'']
      \<or> (btype \<in> set [''bandpass'', ''bandstop''] \<and> (\<forall>lo hi. bnd \<noteq> Edges [lo, hi]))
    \<longrightarrow> (\<exists>e. (e = AssertionError \<or> e = TypeError)
          \<and> (\<forall>L' segs. FilterRecording_init L' (recording\<lparr>recording_segments := segs\<rparr>)
                 bnd btype N ftype fmode margin_ms dt = Inl e)))
   \<and> (\<forall>r. FilterRecording_init L recording bnd btype N ftype fmode margin_ms dt = Inr r
        \<longrightarrow> btype \<in> set [''bandpass'', ''lowpass'', ''highpass'', ''bandstop'']
          \<and> fmode \<in> set [''sos'', ''ba'']
          \<and> (btype \<in> set [''bandpass'', ''bandstop''] \<longrightarrow> (\<exists>lo hi. bnd = Edges [lo, hi]))
          \<and> length (fr_segments r) = length (recording_segments recording)
          \<and> (\<forall>s \<in> set (fr_segments r). filter_mode s = fmode))"
proof (intro conjI impI allI)
  assume inv: "btype \<notin> set [''bandpass'', ''lowpass'', ''highpass'', ''bandstop'']
      \<or> fmode \<notin> set [''sos'', ''ba'']
      \<or> (btype \<in> set [''bandpass'', ''bandstop''] \<and> (\<forall>lo hi. bnd \<noteq> Edges [lo, hi]))"
  show "\<exists>e. (e = AssertionError \<or> e = TypeError)
          \<and> (\<forall>L' segs. FilterRecording_init L' (recording\<lparr>recording_segments := segs\<rparr>)
                 bnd btype N ftype fmode margin_ms dt = Inl e)"
  proof (cases "btype \<notin> set [''bandpass'', ''lowpass'', ''highpass'', ''bandstop'']
      \<or> fmode \<notin> set [''sos'', ''ba'']")
    case True
    then have "\<forall>L' segs. FilterRecording_init L' (recording\<lparr>recording_segments := segs\<rparr>)
                 bnd btype N ftype fmode margin_ms dt = Inl AssertionError"
      by (auto simp: FilterRecording_init_def)
    then show ?thesis by blast
  next
    case False
    with inv have bt: "btype \<in> set [''bandpass'', ''bandstop'']"
      and two: "\<forall>lo hi. bnd \<noteq> Edges [lo, hi]" by auto
    show ?thesis
    proof (cases bnd)
      case (Cutoff c)
      with False bt have "\<forall>L' segs. FilterRecording_init L' (recording\<lparr>recording_segments := segs\<rparr>)
                 bnd btype N ftype fmode margin_ms dt = Inl TypeError"
        by (auto simp: FilterRecording_init_def normalized_Wn_def)
      then show ?thesis by blast
    next
      case (Edges es)
      with two have "length es \<noteq> 2"
        by (metis One_nat_def Suc_1 length_0_conv length_Suc_conv)
      with Edges False bt have "\<forall>L' segs. FilterRecording_init L' (recording\<lparr>recording_segments := segs\<rparr>)
                 bnd btype N ftype fmode margin_ms dt = Inl AssertionError"
        by (auto simp: FilterRecording_init_def normalized_Wn_def)
      then show ?thesis by blast
    qed
  qed
next
  fix r
  assume ok: "FilterRecording_init L recording bnd btype N ftype fmode margin_ms dt = Inr r"
  from FilterRecording_init_Inr [OF ok] obtain Wn cf mrg where
    bt: "btype \<in> set [''bandpass'', ''lowpass'', ''highpass'', ''bandstop'']"
    and fm: "fmode \<in> set [''sos'', ''ba'']"
    and wn: "normalized_Wn bnd btype (get_sampling_frequency recording) = Inr Wn"
    and segs: "fr_segments r = map (\<lambda>p. FilterRecordingSegment_init p cf fmode
                mrg
                (case dt of None \<Rightarrow> get_dtype recording | Some d \<Rightarrow> d))
              (recording_segments recording)"
    by force
  show "btype \<in> set [''bandpass'', ''lowpass'', ''highpass'', ''bandstop'']" by (rule bt)
  show "fmode \<in> set [''sos'', ''ba'']" by (rule fm)
  show "length (fr_segments r) = length (recording_segments recording)"
    by (simp add: segs)
  show "\<forall>s \<in> set (fr_segments r). filter_mode s = fmode"
    by (auto simp: segs FilterRecordingSegment_init_def)
  show "\<exists>lo hi. bnd = Edges [lo, hi]" if "btype \<in> set [''bandpass'', ''bandstop'']"
  proof (cases bnd)
    case (Cutoff c)
    with wn that show ?thesis by (auto simp: normalized_Wn_def)
  next
    case (Edges es)
    with wn that have "length es = 2"
      by (auto simp: normalized_Wn_def split: if_splits)
    then obtain lo hi where "es = [lo, hi]"
      by (metis One_nat_def Suc_1 length_0_conv length_Suc_conv)
    with Edges show ?thesis by blast
  qed
qed

theorem FilterRecording_init_atomic_witness:
  "''notch'' \<notin> set [''bandpass'', ''lowpass'', ''highpass'', ''bandstop'']
   \<and> FilterRecording_init example_lib example_recording (Edges [300, 600]) ''notch'' 5
        ''butter'' ''sos'' 5 None = Inl AssertionError
   \<and> FilterRecording_init example_lib example_recording (Edges [300, 600]) ''bandpass'' 5
        ''butter'' ''zpk'' 5 None = Inl AssertionError
   \<and> FilterRecording_init example_lib example_recording (Edges [300, 600, 900]) ''bandpass'' 5
        ''butter'' ''sos'' 5 None = Inl AssertionError
   \<and> map_sum id (map filter_mode \<circ> fr_segments)
       (FilterRecording_init example_lib example_recording (Edges [300, 600]) ''bandpass'' 5
        ''butter'' ''sos'' 5 None) = Inr [''sos'']"
  using FilterRecording_init_atomic [of "''notch''" "''sos''" "Edges [300, 600]"
      example_recording 5 "''butter''" 5 None example_lib]
  by (simp add: FilterRecording_init_def normalized_Wn_def example_lib_def example_recording_def
      BasePreprocessor_init_def annotate_def add_recording_segment_def
      FilterRecordingSegment_init_def margin_samples_def)

section \<open>The filter segment reads\<close>

text \<open>
  C5, as amended. Take a request \<open>0 \<le> start_frame \<le> end_frame \<le> get_num_frames\<close>
  on a filter segment whose margin is not negative, a parent that answers the widened
  request with a buffer of the rows and channels asked for, and a filter call that
  returns a buffer of the shape of the chunk. Then \<open>get_traces\<close> returns a buffer: the
  filtered one without its first \<open>actual_left_margin\<close> rows and its last
  \<open>actual_right_margin\<close> rows, cast to the segment's element type, of exactly
  \<open>end_frame - start_frame\<close> rows and \<open>len(channel_indices)\<close> columns.
\<close>

theorem get_traces_shape:
  assumes req: "0 \<le> start_frame" "start_frame \<le> end_frame"
      "end_frame \<le> get_num_frames (parent_recording_segment self)"
    and mrg: "0 \<le> margin self"
    and parent: "get_traces (parent_recording_segment self)
        (max 0 (start_frame - margin self))
        (min (get_num_frames (parent_recording_segment self)) (end_frame + margin self))
        channel_indices = Inr traces_chunk"
      "int (length (samples traces_chunk)) =
         min (get_num_frames (parent_recording_segment self)) (end_frame + margin self)
           - max 0 (start_frame - margin self)"
      "n_channels traces_chunk = length channel_indices"
    and filt: "apply_filter L self traces_chunk = Inr (Some filtered_traces)"
      "length (samples filtered_traces) = length (samples traces_chunk)"
      "n_channels filtered_traces = n_channels traces_chunk"
  shows "\<exists>out. FilterRecordingSegment_get_traces L self start_frame end_frame channel_indices
                 = Inr out
           \<and> length (samples out) = nat (end_frame - start_frame)
           \<and> n_channels out = length channel_indices
           \<and> elem_dtype out = dtype self
           \<and> samples out = map (map (astype_elem L (dtype self)))
               (take (nat (end_frame - start_frame))
                  (drop (nat (start_frame - max 0 (start_frame - margin self)))
                     (samples filtered_traces)))"
proof -
  define left where "left = max 0 (start_frame - margin self)"
  define right where
    "right = min (get_num_frames (parent_recording_segment self)) (end_frame + margin self)"
  define lm where "lm = start_frame - left"
  define rm where "rm = right - end_frame"
  have chunk: "get_chunk_with_margin (parent_recording_segment self) start_frame end_frame
      channel_indices (margin self) = Inr (traces_chunk, lm, rm)"
    using parent(1) by (simp add: get_chunk_with_margin_def Let_def left_def right_def lm_def rm_def)
  have lm0: "0 \<le> lm" and rm0: "0 \<le> rm"
    using req mrg by (auto simp: lm_def rm_def left_def right_def)
  have len: "int (length (samples filtered_traces)) = lm + (end_frame - start_frame) + rm"
    using parent(2) filt(2) by (simp add: lm_def rm_def left_def right_def)
  define out where "out = astype L (trim_margins filtered_traces lm rm) (dtype self)"
  have res: "FilterRecordingSegment_get_traces L self start_frame end_frame channel_indices
      = Inr out"
    using chunk filt(1) by (simp add: FilterRecordingSegment_get_traces_def out_def)
  have trim: "samples (trim_margins filtered_traces lm rm)
      = take (nat (end_frame - start_frame)) (drop (nat lm) (samples filtered_traces))"
  proof (cases "rm > 0")
    case True
    have "length (samples filtered_traces) - nat lm - nat rm = nat (end_frame - start_frame)"
      using len lm0 rm0 req by linarith
    moreover have "lm + rm \<le> int (length (samples filtered_traces))"
      using len req by linarith
    ultimately show ?thesis
      using True lm0 by (simp add: trim_margins_def slice_rows_def py_slice_back_eq)
  next
    case False
    with rm0 have "rm = 0" by simp
    then have "length (drop (nat lm) (samples filtered_traces)) = nat (end_frame - start_frame)"
      using len lm0 req by simp
    then have "take (nat (end_frame - start_frame)) (drop (nat lm) (samples filtered_traces))
        = drop (nat lm) (samples filtered_traces)"
      by simp
    with False lm0 show ?thesis
      by (simp add: trim_margins_def slice_rows_def py_slice_open_eq)
  qed
  have l: "length (samples out) = nat (end_frame - start_frame)"
    using len lm0 rm0 req by (simp add: out_def astype_def trim)
  have c: "n_channels out = length channel_indices"
    using filt(3) parent(3)
    by (simp add: out_def astype_def trim_margins_def slice_rows_def)
  have d: "elem_dtype out = dtype self"
    by (simp add: out_def astype_def)
  have s: "samples out = map (map (astype_elem L (dtype self)))
               (take (nat (end_frame - start_frame)) (drop (nat lm) (samples filtered_traces)))"
    by (simp add: out_def astype_def trim)
  from res l c d s show ?thesis
    by (simp add: lm_def left_def)
qed

text \<open>
  The theorem at the segment of twelve frames, with a margin of one sample and a library
  that pads as scipy does: the frames 3 to 9 are asked for, the eight frames 2 to 10 are
  filtered, and six rows come back.
\<close>

theorem get_traces_shape_witness:
  "(0::int) \<le> 3 \<and> (3::int) \<le> 9 \<and> 9 \<le> get_num_frames (parent_recording_segment long_segment)
   \<and> 0 \<le> margin long_segment
   \<and> get_traces (parent_recording_segment long_segment) 2 10 [0, 1]
       = Inr \<lparr>elem_dtype = Int16, n_channels = 2,
            samples = [[5, 6], [7, 8], [9, 10], [11, 12], [13, 14], [15, 16], [17, 18], [19, 20]]\<rparr>
   \<and> apply_filter padding_lib long_segment
        \<lparr>elem_dtype = Int16, n_channels = 2,
           samples = [[5, 6], [7, 8], [9, 10], [11, 12], [13, 14], [15, 16], [17, 18], [19, 20]]\<rparr>
       = Inr (Some \<lparr>elem_dtype = Float64, n_channels = 2,
            samples = [[5, 6], [7, 8], [9, 10], [11, 12], [13, 14], [15, 16], [17, 18], [19, 20]]\<rparr>)
   \<and> FilterRecordingSegment_get_traces padding_lib long_segment 3 9 [0, 1]
       = Inr \<lparr>elem_dtype = Float32, n_channels = 2,
            samples = [[7, 8], [9, 10], [11, 12], [13, 14], [15, 16], [17, 18]]\<rparr>"
  using get_traces_shape [of 3 9 long_segment "[0, 1]"
      "\<lparr>elem_dtype = Int16, n_channels = 2,
         samples = [[5, 6], [7, 8], [9, 10], [11, 12], [13, 14], [15, 16], [17, 18], [19, 20]]\<rparr>"
      padding_lib
      "\<lparr>elem_dtype = Float64, n_channels = 2,
         samples = [[5, 6], [7, 8], [9, 10], [11, 12], [13, 14], [15, 16], [17, 18], [19, 20]]\<rparr>"]
  by (simp add: long_segment_def FilterRecordingSegment_init_def array_segment_def
      long_rows_def padding_lib_def example_lib_def sos_padlen_def apply_filter_def
      FilterRecordingSegment_get_traces_def get_chunk_with_margin_def trim_margins_def
      slice_rows_def py_slice_def slice_index_def astype_def)

text \<open>
  C5 as it is stated fails. On the segment of six frames, with a margin of one sample,
  the request for the frames 2 to 4 is valid, the chunk of four rows is no longer than
  the pad length 6, and the filter call raises: \<open>get_traces\<close> returns no buffer. On
  the segment of twelve frames, with a margin of minus one sample, the request for the
  ten frames 1 to 11 is valid and \<open>get_traces\<close> returns one row.
\<close>

theorem get_traces_shape_counterexample:
  "(0::int) \<le> 2 \<and> (2::int) \<le> 4 \<and> 4 \<le> get_num_frames (parent_recording_segment example_segment)
   \<and> FilterRecordingSegment_get_traces padding_lib example_segment 2 4 [0, 1] = Inl ValueError
   \<and> (0::int) \<le> 1 \<and> (1::int) \<le> 11
   \<and> 11 \<le> get_num_frames (parent_recording_segment negative_margin_segment)
   \<and> FilterRecordingSegment_get_traces padding_lib negative_margin_segment 1 11 [0, 1]
       = Inr \<lparr>elem_dtype = Float32, n_channels = 2, samples = [[19, 20]]\<rparr>"
  by (simp add: example_segment_def negative_margin_segment_def FilterRecordingSegment_init_def
      array_segment_def example_rows_def long_rows_def padding_lib_def example_lib_def
      sos_padlen_def apply_filter_def FilterRecordingSegment_get_traces_def
      get_chunk_with_margin_def trim_margins_def slice_rows_def py_slice_def slice_index_def
      astype_def)

text \<open>
  C6. \<open>get_traces\<close> dispatches on the representation tag. With \<open>sos\<close> the padded
  chunk goes through \<open>scipy.signal.sosfiltfilt\<close>, the forward-backward cascade of
  second-order sections, with the segment's coefficients; with \<open>ba\<close> the coefficients
  are unpacked into the pair \<open>b, a\<close> and the chunk goes through
  \<open>scipy.signal.filtfilt\<close>. In both cases the result is trimmed and cast.
\<close>

theorem get_traces_dispatch:
  "(filter_mode self = ''sos'' \<longrightarrow>
      FilterRecordingSegment_get_traces L self start_frame end_frame channel_indices =
        (case get_chunk_with_margin (parent_recording_segment self) start_frame end_frame
                channel_indices (margin self) of
           Inl err \<Rightarrow> Inl err
         | Inr (traces_chunk, left_margin, right_margin) \<Rightarrow>
            (case sosfiltfilt L (coeff self) traces_chunk of
               Inl err \<Rightarrow> Inl err
             | Inr y \<Rightarrow> Inr (astype L (trim_margins y left_margin right_margin) (dtype self)))))
   \<and> (filter_mode self = ''ba'' \<and> coeff self = [b, a] \<longrightarrow>
      FilterRecordingSegment_get_traces L self start_frame end_frame channel_indices =
        (case get_chunk_with_margin (parent_recording_segment self) start_frame end_frame
                channel_indices (margin self) of
           Inl err \<Rightarrow> Inl err
         | Inr (traces_chunk, left_margin, right_margin) \<Rightarrow>
            (case filtfilt L b a traces_chunk of
               Inl err \<Rightarrow> Inl err
             | Inr y \<Rightarrow> Inr (astype L (trim_margins y left_margin right_margin) (dtype self)))))"
  by (auto simp: FilterRecordingSegment_get_traces_def apply_filter_def
      split: sum.splits prod.splits)

theorem get_traces_dispatch_witness:
  "filter_mode example_segment = ''sos''
   \<and> FilterRecordingSegment_get_traces example_lib example_segment 2 4 [0, 1]
       = Inr \<lparr>elem_dtype = Float32, n_channels = 2, samples = [[5, 6], [7, 8]]\<rparr>
   \<and> FilterRecordingSegment_get_traces
        (example_lib\<lparr>sosfiltfilt := (\<lambda>sos x. Inl ValueError)\<rparr>) example_segment 2 4 [0, 1]
       = Inl ValueError
   \<and> FilterRecordingSegment_get_traces
        (example_lib\<lparr>filtfilt := (\<lambda>b a x. Inl ValueError)\<rparr>)
        (example_segment\<lparr>filter_mode := ''ba'', coeff := [[1], [1]]\<rparr>) 2 4 [0, 1]
       = Inl ValueError"
  using get_traces_dispatch [of example_segment example_lib 2 4 "[0, 1]" "[1]" "[1]"]
    get_traces_dispatch [of "example_segment\<lparr>filter_mode := ''ba'', coeff := [[1], [1]]\<rparr>"
      "example_lib\<lparr>filtfilt := (\<lambda>b a x. Inl ValueError)\<rparr>" 2 4 "[0, 1]" "[1]" "[1]"]
  by (simp add: example_segment_def FilterRecordingSegment_init_def array_segment_def
      example_rows_def example_lib_def apply_filter_def FilterRecordingSegment_get_traces_def
      get_chunk_with_margin_def trim_margins_def slice_rows_def py_slice_def slice_index_def
      astype_def)

text \<open>
  C10. When the representation tag of a segment is \<open>sos\<close> or \<open>ba\<close>, the branch on
  it never leaves \<open>filtered_traces\<close> unassigned: the filter call either raises, and
  \<open>get_traces\<close> raises the same error, or it assigns the buffer that \<open>get_traces\<close>
  trims and returns. Every segment built by the generic, the bandpass and the notch filter
  has such a tag.
\<close>

theorem filtered_traces_always_assigned:
  "(filter_mode self \<in> set [''sos'', ''ba''] \<longrightarrow>
      apply_filter L self chunk \<noteq> Inr None
      \<and> (get_chunk_with_margin (parent_recording_segment self) start_frame end_frame
            channel_indices (margin self) = Inr (chunk, left_margin, right_margin) \<longrightarrow>
          (\<exists>e. apply_filter L self chunk = Inl e
              \<and> FilterRecordingSegment_get_traces L self start_frame end_frame channel_indices
                  = Inl e)
          \<or> (\<exists>y. apply_filter L self chunk = Inr (Some y)
              \<and> FilterRecordingSegment_get_traces L self start_frame end_frame channel_indices
                  = Inr (astype L (trim_margins y left_margin right_margin) (dtype self)))))
   \<and> ((FilterRecording_init L recording bnd btype N ftype fmode margin_ms dt = Inr r
        \<or> BandpassFilterRecording_init L recording freq_min freq_max margin_ms dt fk = Inr r
        \<or> NotchFilterRecording_init L recording freq q margin_ms dt = Inr r)
       \<longrightarrow> (\<forall>s \<in> set (fr_segments r). filter_mode s \<in> set [''sos'', ''ba'']))"
proof (intro conjI impI)
  assume m: "filter_mode self \<in> set [''sos'', ''ba'']"
  then show a: "apply_filter L self chunk \<noteq> Inr None"
    by (auto simp: apply_filter_def split: sum.splits list.splits)
  assume c: "get_chunk_with_margin (parent_recording_segment self) start_frame end_frame
            channel_indices (margin self) = Inr (chunk, left_margin, right_margin)"
  show "(\<exists>e. apply_filter L self chunk = Inl e
              \<and> FilterRecordingSegment_get_traces L self start_frame end_frame channel_indices
                  = Inl e)
          \<or> (\<exists>y. apply_filter L self chunk = Inr (Some y)
              \<and> FilterRecordingSegment_get_traces L self start_frame end_frame channel_indices
                  = Inr (astype L (trim_margins y left_margin right_margin) (dtype self)))"
  proof (cases "apply_filter L self chunk")
    case (Inl e)
    with c show ?thesis by (simp add: FilterRecordingSegment_get_traces_def)
  next
    case (Inr res)
    with a obtain y where "res = Some y" by (cases res) auto
    with Inr c show ?thesis by (simp add: FilterRecordingSegment_get_traces_def)
  qed
next
  assume b: "FilterRecording_init L recording bnd btype N ftype fmode margin_ms dt = Inr r
        \<or> BandpassFilterRecording_init L recording freq_min freq_max margin_ms dt fk = Inr r
        \<or> NotchFilterRecording_init L recording freq q margin_ms dt = Inr r"
  from built_segments [OF b] show "\<forall>s \<in> set (fr_segments r). filter_mode s \<in> set [''sos'', ''ba'']"
    by (auto simp: FilterRecordingSegment_init_def)
qed

theorem filtered_traces_always_assigned_witness:
  "filter_mode example_segment \<in> set [''sos'', ''ba'']
   \<and> get_chunk_with_margin (parent_recording_segment example_segment) 2 4 [0, 1]
        (margin example_segment)
       = Inr (\<lparr>elem_dtype = Int16, n_channels = 2, samples = [[3, 4], [5, 6], [7, 8], [9, 10]]\<rparr>,
              1, 1)
   \<and> apply_filter example_lib example_segment
        \<lparr>elem_dtype = Int16, n_channels = 2, samples = [[3, 4], [5, 6], [7, 8], [9, 10]]\<rparr>
       \<noteq> Inr None
   \<and> FilterRecordingSegment_get_traces example_lib example_segment 2 4 [0, 1]
       \<noteq> Inl UnboundLocalError"
  using filtered_traces_always_assigned [of example_segment example_lib
      "\<lparr>elem_dtype = Int16, n_channels = 2, samples = [[3, 4], [5, 6], [7, 8], [9, 10]]\<rparr>"
      2 4 "[0, 1]" 1 1]
  by (simp add: example_segment_def FilterRecordingSegment_init_def array_segment_def
      example_rows_def example_lib_def apply_filter_def FilterRecordingSegment_get_traces_def
      get_chunk_with_margin_def)

section \<open>The notch filter\<close>

text \<open>
  C7. Every segment that \<open>NotchFilterRecording\<close> builds has the representation
  tag \<open>ba\<close>, and its coefficients are the pair \<open>(b, a)\<close> that \<open>iirnotch\<close>
  returns for the target frequency over the Nyquist frequency and the quality factor;
  there is one segment for each segment of the parent, and its filter step is
  \<open>filtfilt\<close> with that pair.
\<close>

theorem NotchFilterRecording_segments_ba:
  assumes "NotchFilterRecording_init L recording freq q margin_ms dt = Inr r"
  shows "\<exists>b a. iirnotch L (freq / ((1 / 2) * get_sampling_frequency recording)) q = Inr (b, a)
           \<and> length (fr_segments r) = length (recording_segments recording)
           \<and> (\<forall>s \<in> set (fr_segments r).
                 filter_mode s = ''ba'' \<and> coeff s = [b, a]
                 \<and> (\<forall>chunk. apply_filter L s chunk
                       = (case filtfilt L b a chunk of Inl e \<Rightarrow> Inl e | Inr y \<Rightarrow> Inr (Some y))))"
proof -
  from NotchFilterRecording_init_Inr [OF assms] obtain b a mrg where
    n: "iirnotch L (freq / ((1 / 2) * get_sampling_frequency recording)) q = Inr (b, a)"
    and segs: "fr_segments r = map (\<lambda>p. FilterRecordingSegment_init p [b, a] ''ba''
                mrg
                (case dt of None \<Rightarrow> get_dtype recording | Some d \<Rightarrow> d))
              (recording_segments recording)"
    by force
  have "\<forall>s \<in> set (fr_segments r).
          filter_mode s = ''ba'' \<and> coeff s = [b, a]
          \<and> (\<forall>chunk. apply_filter L s chunk
                = (case filtfilt L b a chunk of Inl e \<Rightarrow> Inl e | Inr y \<Rightarrow> Inr (Some y)))"
    by (auto simp: segs FilterRecordingSegment_init_def apply_filter_def)
  with n segs show ?thesis by auto
qed

theorem NotchFilterRecording_segments_ba_witness:
  "NotchFilterRecording_init example_lib example_recording 50 30 5 None
     = Inr \<lparr>fr_dtype = Int16, annotations = [''is_filtered'' \<mapsto> True],
        fr_segments = [\<lparr>parent_recording_segment = array_segment Int16 example_rows,
           coeff = [[1], [1]], filter_mode = ''ba'', margin = 7, dtype = Int16\<rparr>],
        fr_kwargs = no_kwargs\<lparr>kw_recording := Some (), kw_freq := Some 50, kw_q := Some 30,
           kw_margin_ms := Some 5\<rparr>\<rparr>
   \<and> iirnotch example_lib (50 / ((1 / 2) * get_sampling_frequency example_recording)) 30
       = Inr ([1], [1])"
  using NotchFilterRecording_segments_ba [of example_lib example_recording 50 30 5 None]
  by (simp add: NotchFilterRecording_init_def example_lib_def example_recording_def
      BasePreprocessor_init_def annotate_def add_recording_segment_def
      FilterRecordingSegment_init_def margin_samples_def)

section \<open>Annotation and element type\<close>



section \<open>The parameter set and the round trip\<close>

lemma BasePreprocessor_init_parent_dtype:
  "BasePreprocessor_init recording (Some (get_dtype recording))
     = BasePreprocessor_init recording None"
  by (simp add: BasePreprocessor_init_def)

lemma FilterRecording_init_parent_dtype:
  "FilterRecording_init L recording bnd btype N ftype fmode margin_ms (Some (get_dtype recording))
     = FilterRecording_init L recording bnd btype N ftype fmode margin_ms None"
  unfolding FilterRecording_init_def BasePreprocessor_init_parent_dtype by (rule refl)

lemma NotchFilterRecording_init_parent_dtype:
  "NotchFilterRecording_init L recording freq q margin_ms (Some (get_dtype recording))
     = NotchFilterRecording_init L recording freq q margin_ms None"
  unfolding NotchFilterRecording_init_def BasePreprocessor_init_parent_dtype by (rule refl)

lemma FilterRecording_roundtrip:
  assumes b: "FilterRecording_init L recording bnd btype N ftype fmode margin_ms dt = Inr r"
    and d: "dt = None \<or> dt = Some (get_dtype recording)"
  shows "FilterRecording_from_kwargs L recording (fr_kwargs r) = Inr r"
proof -
  from FilterRecording_init_Inr [OF b] have
    kw: "fr_kwargs r = no_kwargs\<lparr>
                      kw_recording := Some (to_dict recording), kw_band := Some bnd,
                      kw_btype := Some btype, kw_filter_order := Some N,
                      kw_ftype := Some ftype, kw_filter_mode := Some fmode,
                      kw_margin_ms := Some margin_ms\<rparr>"
    by force
  have "FilterRecording_from_kwargs L recording (fr_kwargs r)
      = FilterRecording_init L recording bnd btype N ftype fmode margin_ms None"
    by (simp add: kw FilterRecording_from_kwargs_def FilterRecording_call_def no_kwargs_def)
  also have "\<dots> = FilterRecording_init L recording bnd btype N ftype fmode margin_ms dt"
    using d by (auto simp: FilterRecording_init_parent_dtype)
  finally show ?thesis using b by simp
qed

lemma NotchFilterRecording_roundtrip:
  assumes b: "NotchFilterRecording_init L recording freq q margin_ms dt = Inr r"
    and d: "dt = None \<or> dt = Some (get_dtype recording)"
  shows "NotchFilterRecording_from_kwargs L recording (fr_kwargs r) = Inr r"
proof -
  from NotchFilterRecording_init_Inr [OF b] have
    kw: "fr_kwargs r = no_kwargs\<lparr>
                 kw_recording := Some (to_dict recording), kw_freq := Some freq,
                 kw_q := Some q, kw_margin_ms := Some margin_ms\<rparr>"
    by force
  have "NotchFilterRecording_from_kwargs L recording (fr_kwargs r)
      = NotchFilterRecording_init L recording freq q margin_ms None"
    by (simp add: kw NotchFilterRecording_from_kwargs_def NotchFilterRecording_call_def
        no_kwargs_def)
  also have "\<dots> = NotchFilterRecording_init L recording freq q margin_ms dt"
    using d by (auto simp: NotchFilterRecording_init_parent_dtype)
  finally show ?thesis using b by simp
qed

lemma BandpassFilterRecording_init_parent_dtype:
  "BandpassFilterRecording_init L recording freq_min freq_max margin_ms
       (Some (get_dtype recording)) fk
     = BandpassFilterRecording_init L recording freq_min freq_max margin_ms None fk"
  by (simp add: BandpassFilterRecording_init_def FilterRecording_call_def
      FilterRecording_init_parent_dtype)

lemma BandpassFilterRecording_roundtrip:
  assumes b: "BandpassFilterRecording_init L recording freq_min freq_max margin_ms dt fk = Inr r"
    and d: "dt = None \<or> dt = Some (get_dtype recording)"
  shows "BandpassFilterRecording_from_kwargs L recording (fr_kwargs r) = Inr r"
proof -
  from BandpassFilterRecording_init_Inr [OF b] have
    fk: "kw_recording fk = None" "kw_band fk = None" "kw_margin_ms fk = None"
      "kw_dtype fk = None" "kw_freq_min fk = None" "kw_freq_max fk = None"
      "kw_freq fk = None" "kw_q fk = None"
    and kw: "fr_kwargs r = no_kwargs\<lparr>kw_recording := Some (to_dict recording),
            kw_freq_min := Some freq_min, kw_freq_max := Some freq_max,
            kw_margin_ms := Some margin_ms, kw_btype := kw_btype fk,
            kw_filter_order := kw_filter_order fk, kw_ftype := kw_ftype fk,
            kw_filter_mode := kw_filter_mode fk\<rparr>"
    by force+
  have rest: "fr_kwargs r\<lparr>kw_recording := None, kw_freq_min := None, kw_freq_max := None,
      kw_margin_ms := None, kw_dtype := None\<rparr> = fk"
    using fk by (simp add: kw no_kwargs_def)
  have "BandpassFilterRecording_from_kwargs L recording (fr_kwargs r)
      = BandpassFilterRecording_init L recording freq_min freq_max margin_ms None
          (fr_kwargs r\<lparr>kw_recording := None, kw_freq_min := None, kw_freq_max := None,
             kw_margin_ms := None, kw_dtype := None\<rparr>)"
    by (simp add: kw BandpassFilterRecording_from_kwargs_def BandpassFilterRecording_call_def
        no_kwargs_def)
  also have "\<dots> = BandpassFilterRecording_init L recording freq_min freq_max margin_ms None fk"
    by (simp only: rest)
  also have "\<dots> = BandpassFilterRecording_init L recording freq_min freq_max margin_ms dt fk"
    using d by (auto simp: BandpassFilterRecording_init_parent_dtype)
  finally show ?thesis using b by simp
qed

lemma FilterRecording_init_built:
  assumes "btype \<in> set [''bandpass'', ''lowpass'', ''highpass'', ''bandstop'']"
    and "fmode \<in> set [''sos'', ''ba'']"
    and "normalized_Wn bnd btype (get_sampling_frequency recording) = Inr Wn"
    and "iirfilter L N Wn btype ftype fmode = Inr cf"
    and "margin_samples L margin_ms (get_sampling_frequency recording) = Inr mrg"
  shows "FilterRecording_init L recording bnd btype N ftype fmode margin_ms dt
     = Inr \<lparr>fr_dtype = (case dt of None \<Rightarrow> get_dtype recording | Some d \<Rightarrow> d),
            annotations = [''is_filtered'' \<mapsto> True],
            fr_segments = map (\<lambda>p. FilterRecordingSegment_init p cf fmode mrg
                (case dt of None \<Rightarrow> get_dtype recording | Some d \<Rightarrow> d))
              (recording_segments recording),
            fr_kwargs = no_kwargs\<lparr>
                      kw_recording := Some (to_dict recording), kw_band := Some bnd,
                      kw_btype := Some btype, kw_filter_order := Some N,
                      kw_ftype := Some ftype, kw_filter_mode := Some fmode,
                      kw_margin_ms := Some margin_ms\<rparr>\<rparr>"
  using assms
  unfolding FilterRecording_init_def Let_def fold_add_segments
  by (simp add: BasePreprocessor_init_def annotate_def)

text \<open>
  C2. The claim is that the parameter set kept by a filter holds its \<open>dtype\<close> and
  that rebuilding from the parameter set gives the same filtering, also for an explicit
  \<open>dtype\<close>. The code keeps every other parameter and leaves \<open>dtype\<close> out: no
  variant has the key \<open>dtype\<close> in its parameter set. A generic filter built with an
  explicit \<open>dtype\<close> other than the parent's element type has that element type, and
  so has each of its segments; rebuilding from its parameter set against the same parent
  succeeds and gives a recording whose element type, and that of each of its segments, is
  the parent's.
\<close>

theorem kwargs_omit_dtype:
  "(FilterRecording_init L recording bnd btype N ftype fmode margin_ms (Some d) = Inr r
      \<and> d \<noteq> get_dtype recording \<longrightarrow>
        kw_dtype (fr_kwargs r) = None
        \<and> fr_dtype r = d \<and> (\<forall>s \<in> set (fr_segments r). dtype s = d)
        \<and> (\<exists>r'. FilterRecording_from_kwargs L recording (fr_kwargs r) = Inr r'
              \<and> fr_dtype r' = get_dtype recording
              \<and> (\<forall>s \<in> set (fr_segments r'). dtype s = get_dtype recording)
              \<and> r' \<noteq> r))
   \<and> (BandpassFilterRecording_init L recording freq_min freq_max margin_ms dt fk = Inr rb
        \<longrightarrow> kw_dtype (fr_kwargs rb) = None)
   \<and> (NotchFilterRecording_init L recording freq q margin_ms dt = Inr rn
        \<longrightarrow> kw_dtype (fr_kwargs rn) = None)"
proof (intro conjI impI)
  assume "FilterRecording_init L recording bnd btype N ftype fmode margin_ms (Some d) = Inr r
      \<and> d \<noteq> get_dtype recording"
  then have b: "FilterRecording_init L recording bnd btype N ftype fmode margin_ms (Some d) = Inr r"
    and ne: "d \<noteq> get_dtype recording" by simp_all
  from FilterRecording_init_Inr [OF b] obtain Wn cf mrg where
    bt: "btype \<in> set [''bandpass'', ''lowpass'', ''highpass'', ''bandstop'']"
    and fm: "fmode \<in> set [''sos'', ''ba'']"
    and wn: "normalized_Wn bnd btype (get_sampling_frequency recording) = Inr Wn"
    and cf: "iirfilter L N Wn btype ftype fmode = Inr cf"
    and ms: "margin_samples L margin_ms (get_sampling_frequency recording) = Inr mrg"
    and dr: "fr_dtype r = d"
    and segs: "fr_segments r = map (\<lambda>p. FilterRecordingSegment_init p cf fmode mrg d)
              (recording_segments recording)"
    and kw: "fr_kwargs r = no_kwargs\<lparr>
                      kw_recording := Some (to_dict recording), kw_band := Some bnd,
                      kw_btype := Some btype, kw_filter_order := Some N,
                      kw_ftype := Some ftype, kw_filter_mode := Some fmode,
                      kw_margin_ms := Some margin_ms\<rparr>"
    by force
  show "kw_dtype (fr_kwargs r) = None" by (simp add: kw no_kwargs_def)
  show "fr_dtype r = d" by (rule dr)
  show "\<forall>s \<in> set (fr_segments r). dtype s = d"
    by (auto simp: segs FilterRecordingSegment_init_def)
  define r' where "r' = \<lparr>fr_dtype = get_dtype recording,
            annotations = [''is_filtered'' \<mapsto> True],
            fr_segments = map (\<lambda>p. FilterRecordingSegment_init p cf fmode mrg
                (get_dtype recording)) (recording_segments recording),
            fr_kwargs = no_kwargs\<lparr>
                      kw_recording := Some (to_dict recording), kw_band := Some bnd,
                      kw_btype := Some btype, kw_filter_order := Some N,
                      kw_ftype := Some ftype, kw_filter_mode := Some fmode,
                      kw_margin_ms := Some margin_ms\<rparr>\<rparr>"
  have "FilterRecording_from_kwargs L recording (fr_kwargs r)
      = FilterRecording_init L recording bnd btype N ftype fmode margin_ms None"
    by (simp add: kw FilterRecording_from_kwargs_def FilterRecording_call_def no_kwargs_def)
  also have "\<dots> = Inr r'"
    using FilterRecording_init_built [OF bt fm wn cf ms, of None] by (simp add: r'_def)
  finally have rb: "FilterRecording_from_kwargs L recording (fr_kwargs r) = Inr r'" .
  have d': "fr_dtype r' = get_dtype recording" by (simp add: r'_def)
  have s': "\<forall>s \<in> set (fr_segments r'). dtype s = get_dtype recording"
    by (auto simp: r'_def FilterRecordingSegment_init_def)
  from d' dr ne have "r' \<noteq> r" by auto
  with rb d' s' show "\<exists>r'. FilterRecording_from_kwargs L recording (fr_kwargs r) = Inr r'
              \<and> fr_dtype r' = get_dtype recording
              \<and> (\<forall>s \<in> set (fr_segments r'). dtype s = get_dtype recording)
              \<and> r' \<noteq> r" by blast
next
  assume b: "BandpassFilterRecording_init L recording freq_min freq_max margin_ms dt fk = Inr rb"
  from BandpassFilterRecording_init_Inr [OF b] show "kw_dtype (fr_kwargs rb) = None"
    by (auto simp: no_kwargs_def)
next
  assume b: "NotchFilterRecording_init L recording freq q margin_ms dt = Inr rn"
  from NotchFilterRecording_init_Inr [OF b] show "kw_dtype (fr_kwargs rn) = None"
    by (auto simp: no_kwargs_def)
qed

text \<open>
  The theorem at the example recording, whose element type is \<open>Int16\<close>: the generic
  filter built with \<open>dtype\<close> \<open>Float32\<close> has no key \<open>dtype\<close> in its parameter
  set, and the recording rebuilt from it has the element type \<open>Int16\<close>.
\<close>

theorem kwargs_omit_dtype_witness:
  "FilterRecording_init example_lib example_recording (Edges [300, 600]) ''bandpass'' 5
      ''butter'' ''sos'' 5 (Some Float32) = Inr example_filter_recording
   \<and> Float32 \<noteq> get_dtype example_recording
   \<and> kw_dtype (fr_kwargs example_filter_recording) = None
   \<and> fr_dtype example_filter_recording = Float32
   \<and> map_sum id (\<lambda>r. (fr_dtype r, map dtype (fr_segments r)))
       (FilterRecording_from_kwargs example_lib example_recording
          (fr_kwargs example_filter_recording)) = Inr (Int16, [Int16])"
  using kwargs_omit_dtype [of example_lib example_recording "Edges [300, 600]" "''bandpass''" 5
      "''butter''" "''sos''" 5 Float32 example_filter_recording]
  by (simp add: FilterRecording_from_kwargs_def FilterRecording_call_def
      FilterRecording_init_def normalized_Wn_def example_lib_def example_recording_def
      BasePreprocessor_init_def annotate_def add_recording_segment_def margin_samples_def
      FilterRecordingSegment_init_def example_filter_recording_def no_kwargs_def)

end
